theory Spec2Isabelle
  imports Complex_Main "HOL-Library.Word" "HOL-Library.Multiset"
begin

unbundle bit_operations_syntax

chapter \<open>UCFGuessr: seeded round sequence, scoring and guess resolution\<close>

text \<open>
  A shallow embedding of the game logic of \<^verbatim>\<open>src/app/page.tsx\<close> (and of its variant
  \<^verbatim>\<open>unnamed/part_001\<close>, which differs in the scoring constants only): the seeded
  generator \<^verbatim>\<open>mulberry32\<close>, the Fisher-Yates shuffle \<^verbatim>\<open>getShuffledLocations\<close>, the
  scoring function \<^verbatim>\<open>calculateScore\<close>, and the parts of the \<^verbatim>\<open>Home\<close> component that
  derive the five game locations, start a round and resolve a guess.
\<close>

section \<open>JavaScript numbers\<close>

text \<open>
  A JavaScript number is an IEEE-754 double. The seed is an integer: the component draws
  it as \<^verbatim>\<open>Math.floor(Math.random() * 1000000)\<close> or reads the decimal integer of a share
  link. From an integer seed the generator only ever holds integer values, so a number is
  modelled as an \<^typ>\<open>int\<close>, and an arithmetic result is rounded to the nearest double by
  \<open>fl64\<close>: an integer of at most 53 significant bits is kept, a longer one loses its
  \<open>excess\<close> low bits, rounding to nearest with ties to the even significand. (No integer
  that occurs here is large enough to overflow to infinity.)
\<close>

fun excess :: "nat \<Rightarrow> nat" where
  "excess a = (if a < 9007199254740992 then 0 else Suc (excess (a div 2)))"

declare excess.simps [simp del]

definition fl64 :: "int \<Rightarrow> int" where
  "fl64 x =
     (let a = \<bar>x\<bar>; e = excess (nat a) in
      if e = 0 then x
      else
        let q = a div 2 ^ e; r = a mod 2 ^ e; h = 2 ^ (e - 1);
            q' = (if r < h then q else if h < r then q + 1 else if even q then q else q + 1)
        in sgn x * (q' * 2 ^ e))"

text \<open>
  The bitwise operators work on 32-bit integers: \<open>ToInt32\<close> keeps the low 32 bits of an
  integer-valued number. A \<^typ>\<open>32 word\<close> is that bit pattern; \<^const>\<open>sint\<close> reads it back
  as the (signed) number an operator such as \<^verbatim>\<open>^\<close> or \<^verbatim>\<open>Math.imul\<close> returns, and
  \<^const>\<open>uint\<close> as the unsigned one \<^verbatim>\<open>>>> 0\<close> returns. \<^verbatim>\<open>t >>> n\<close> is \<open>drop_bit n t\<close>.
\<close>

definition ToInt32 :: "int \<Rightarrow> 32 word" where
  "ToInt32 x = word_of_int x"

definition imul :: "32 word \<Rightarrow> 32 word \<Rightarrow> 32 word" where
  "imul a b = a * b"

section \<open>The seeded generator and the shuffle\<close>

text \<open>
  \<^verbatim>\<open>mulberry32(seed)\<close> returns a closure over the variable \<^verbatim>\<open>seed\<close>. One call of the
  closure is the function below: it takes the current value of \<^verbatim>\<open>seed\<close> and returns the
  new value together with the 32-bit integer \<open>u\<close> whose quotient \<open>u / 4294967296\<close> is the
  number returned.
  \<^verbatim>\<open>
    seed = seed + 0x6D2B79F5;
    let t = seed;
    t = Math.imul(t ^ t >>> 15, t | 1);
    t ^= t + Math.imul(t ^ t >>> 7, t | 61);
    return ((t ^ t >>> 14) >>> 0) / 4294967296;
  \<close>
  The first line is an addition of numbers: the variable is not reduced to 32 bits.
\<close>

definition mulberry32 :: "int \<Rightarrow> int \<times> 32 word" where
  "mulberry32 seed =
     (let seed' = fl64 (seed + 0x6D2B79F5);
          t = ToInt32 seed';
          t = imul (t XOR drop_bit 15 t) (t OR 1);
          t = t XOR ToInt32 (fl64 (sint t + sint (imul (t XOR drop_bit 7 t) (t OR 61))))
      in (seed', t XOR drop_bit 14 t))"

text \<open>
  \<^verbatim>\<open>Math.floor(random() * (i + 1))\<close> with \<open>random() = u / 4294967296\<close> and \<open>n = i + 1\<close>.
  Dividing by a power of two is exact, so the double product is the rounded integer
  product \<open>u * n\<close>, scaled by \<open>2\<^sup>-\<^sup>3\<^sup>2\<close>; its floor is the integer quotient.
\<close>

definition randomIndex :: "32 word \<Rightarrow> nat \<Rightarrow> nat" where
  "randomIndex u n = nat (fl64 (uint u * int n) div 4294967296)"

text \<open>
  The loop \<^verbatim>\<open>for (let i = shuffled.length - 1; i > 0; i--)\<close> of
  \<^verbatim>\<open>getShuffledLocations\<close>, on the value of the array \<^verbatim>\<open>shuffled\<close>. The index \<open>j\<close> drawn
  is at most \<open>i\<close> (lemma \<open>randomIndex_less\<close>), so both positions of the swap exist.
\<close>

fun shuffle_loop :: "nat \<Rightarrow> int \<Rightarrow> 'a list \<Rightarrow> 'a list" where
  "shuffle_loop i seed shuffled =
     (if 0 < i then
        (let (seed', u) = mulberry32 seed;
             j = randomIndex u (i + 1)
         in shuffle_loop (i - 1) seed' (shuffled[i := shuffled ! j, j := shuffled ! i]))
      else shuffled)"

declare shuffle_loop.simps [simp del]

definition getShuffledLocations :: "'a list \<Rightarrow> int \<Rightarrow> 'a list" where
  "getShuffledLocations locations seed = shuffle_loop (length locations - 1) seed locations"

text \<open>
  The round sequence of a game, as the component derives it:
  \<^verbatim>\<open>getShuffledLocations(locations, seed).slice(0, 5)\<close>.
\<close>

definition buildRounds :: "'a list \<Rightarrow> int \<Rightarrow> 'a list" where
  "buildRounds locations seed =
     (let shuffled = getShuffledLocations locations seed in take 5 shuffled)"

subsection \<open>The same function on arrays in a store\<close>

text \<open>
  Arrays are objects: \<^verbatim>\<open>locations\<close> is a reference, and the swaps are writes. A store
  holds the arrays, an address is an index into it. \<^verbatim>\<open>[...locations]\<close> allocates a new
  array with the elements of the old one; the loop writes to the array \<open>shuffled\<close> points
  to; the function returns that reference.
\<close>

type_synonym 'a store = "'a list list"

definition spread :: "'a store \<Rightarrow> nat \<Rightarrow> nat \<times> 'a store" where
  "spread h a = (length h, h @ [h ! a])"

fun shuffle_loop_st :: "nat \<Rightarrow> int \<Rightarrow> nat \<Rightarrow> 'a store \<Rightarrow> 'a store" where
  "shuffle_loop_st i seed shuffled h =
     (if 0 < i then
        (let (seed', u) = mulberry32 seed;
             j = randomIndex u (i + 1);
             arr = h ! shuffled
         in shuffle_loop_st (i - 1) seed' shuffled
              (h[shuffled := arr[i := arr ! j, j := arr ! i]]))
      else h)"

declare shuffle_loop_st.simps [simp del]

definition getShuffledLocations_st :: "'a store \<Rightarrow> nat \<Rightarrow> int \<Rightarrow> nat \<times> 'a store" where
  "getShuffledLocations_st h locations seed =
     (let (shuffled, h1) = spread h locations
      in (shuffled, shuffle_loop_st (length (h1 ! shuffled) - 1) seed shuffled h1))"

subsection \<open>The reference shuffle\<close>

text \<open>
  The algorithm as the specification words it: a generator with a 32-bit state that, per
  call, adds a fixed odd 32-bit constant to the state, mixes the advanced state in two
  xor-shift/multiply rounds and returns the bits scaled into \<open>[0,1)\<close>, all in 32-bit
  wrap-around arithmetic; and a Fisher-Yates loop with \<open>i\<close> from \<open>length - 1\<close> down to
  \<open>1\<close> that draws \<open>j = floor (random () * (i + 1))\<close> and swaps positions \<open>i\<close> and \<open>j\<close>.
\<close>

definition ref_mix :: "32 word \<Rightarrow> 32 word" where
  "ref_mix s =
     (let z = (s XOR drop_bit 15 s) * (s OR 1);
          z = z XOR (z + (z XOR drop_bit 7 z) * (z OR 61))
      in z XOR drop_bit 14 z)"

definition ref_random :: "32 word \<Rightarrow> 32 word \<times> real" where
  "ref_random state =
     (let state' = state + 0x6D2B79F5 in (state', real (unat (ref_mix state')) / 4294967296))"

fun ref_loop :: "nat \<Rightarrow> 32 word \<Rightarrow> 'a list \<Rightarrow> 'a list" where
  "ref_loop i state xs =
     (if 0 < i then
        (let (state', r) = ref_random state;
             j = nat \<lfloor>r * real (i + 1)\<rfloor>
         in ref_loop (i - 1) state' (xs[i := xs ! j, j := xs ! i]))
      else xs)"

declare ref_loop.simps [simp del]

definition shuffle_ref :: "'a list \<Rightarrow> 32 word \<Rightarrow> 'a list" where
  "shuffle_ref xs state = ref_loop (length xs - 1) state xs"

text \<open>A long list of distinct locations, each one standing for its own index.\<close>

definition location_ids :: "nat list" where
  "location_ids = [0..<2929307]"

section \<open>Distance and score\<close>

text \<open>
  Coordinates are pairs \<open>(latitude, longitude)\<close> in degrees. The trigonometry of
  \<^verbatim>\<open>calculateScore\<close> is modelled on the real numbers: \<^verbatim>\<open>Math.sin\<close>, \<^verbatim>\<open>Math.cos\<close>,
  \<^verbatim>\<open>Math.sqrt\<close>, \<^verbatim>\<open>Math.exp\<close> and \<^verbatim>\<open>Math.atan2\<close> are the real functions they
  approximate, without the rounding of doubles.
\<close>

type_synonym position = "real \<times> real"

definition toRadians :: "real \<Rightarrow> real" where
  "toRadians deg = deg * (pi / 180)"

definition atan2 :: "real \<Rightarrow> real \<Rightarrow> real" where
  "atan2 y x =
     (if 0 < x then arctan (y / x)
      else if x < 0 then (if 0 \<le> y then arctan (y / x) + pi else arctan (y / x) - pi)
      else if 0 < y then pi / 2
      else if y < 0 then - (pi / 2)
      else 0)"

text \<open>
  The first part of \<^verbatim>\<open>calculateScore\<close>, up to \<^verbatim>\<open>const distance = R * c\<close>. The two
  variants of the file differ here in the constant \<open>R\<close> only (3958.8 and 500), which is
  the parameter.
\<close>

definition distanceMiles :: "real \<Rightarrow> position \<Rightarrow> position \<Rightarrow> real" where
  "distanceMiles R actualPos guessedPos =
     (let lat1 = fst actualPos; lon1 = snd actualPos;
          lat2 = fst guessedPos; lon2 = snd guessedPos;
          dLat = toRadians (lat2 - lat1);
          dLon = toRadians (lon2 - lon1);
          a = sin (dLat / 2) * sin (dLat / 2) +
              cos (toRadians lat1) * cos (toRadians lat2) * sin (dLon / 2) * sin (dLon / 2);
          c = 2 * atan2 (sqrt a) (sqrt (1 - a))
      in R * c)"

text \<open>
  The score of a distance in \<^verbatim>\<open>page.tsx\<close>:
  \<^verbatim>\<open>Math.max(0, Math.floor(5000 * Math.exp(-distance / 0.9)))\<close>.
\<close>

definition scoreAtDistance :: "real \<Rightarrow> int" where
  "scoreAtDistance distance =
     (let score = \<lfloor>5000 * exp (- distance / 0.9)\<rfloor> in max 0 score)"

text \<open>\<^verbatim>\<open>calculateScore\<close> of \<^verbatim>\<open>page.tsx\<close>; the result is the pair \<open>(score, distance)\<close>.\<close>

definition calculateScore :: "position \<Rightarrow> position \<Rightarrow> int \<times> real" where
  "calculateScore actualPos guessedPos =
     (let distance = distanceMiles 3958.8 actualPos guessedPos;
          distanceInMeters = distance * 1609.34
      in (scoreAtDistance distance, distanceInMeters))"


subsection \<open>The functional form of the specification\<close>

text \<open>
  The haversine great-circle distance on a sphere of radius \<open>R\<close> in its textbook form,
  and the decay \<open>floor (maxPoints * e ^ (- k * distance / scale))\<close>, clamped at 0.
\<close>

definition haversine_spec :: "real \<Rightarrow> position \<Rightarrow> position \<Rightarrow> real" where
  "haversine_spec R p q =
     2 * R * arcsin (sqrt ((sin ((fst q - fst p) * pi / 180 / 2))\<^sup>2 +
        cos (fst p * pi / 180) * cos (fst q * pi / 180) * (sin ((snd q - snd p) * pi / 180 / 2))\<^sup>2))"


section \<open>The component state\<close>

record PanoramaLocation =
  pano_id :: string
  pano_name :: string
  pano_image :: string
  coordinates :: position

record RoundResult =
  r_round :: int
  r_location :: string
  r_actualPosition :: position
  r_guessPosition :: position
  r_score :: int
  r_distance :: real

text \<open>
  What a \<^verbatim>\<open>makeGuess\<close> callback has captured from the render that created it (the
  dependencies of its \<^verbatim>\<open>useCallback\<close>).
\<close>

record Captured =
  c_selectedPosition :: "position option"
  c_gamePhase :: string
  c_currentLocation :: "PanoramaLocation option"
  c_round :: int

text \<open>
  The state of \<^verbatim>\<open>Home\<close> that the game logic reads and writes. \<open>None\<close> stands for
  \<^verbatim>\<open>null\<close> and \<^verbatim>\<open>undefined\<close>. \<open>timerRef\<close> is the running interval, if any, with what
  the \<^verbatim>\<open>makeGuess\<close> in its callback has captured. \<open>alerts\<close> collects the messages shown
  with \<^verbatim>\<open>alert\<close>.
\<close>

record Home =
  score :: int
  round_no :: int
  loading :: bool
  gamePhase :: string
  selectedPosition :: "position option"
  seed :: "int option"
  gameLocations :: "PanoramaLocation list"
  locations :: "PanoramaLocation list"
  currentLocation :: "PanoramaLocation option"
  roundScore :: int
  timeLeft :: int
  showResults :: bool
  gameOver :: bool
  roundResults :: "RoundResult list"
  timerRef :: "Captured option"
  alerts :: "string list"

definition Home_init :: Home where
  "Home_init =
     \<lparr>score = 0, round_no = 1, loading = True, gamePhase = ''exploring'',
      selectedPosition = None, seed = None, gameLocations = [], locations = [],
      currentLocation = None, roundScore = 0, timeLeft = 300, showResults = False,
      gameOver = False, roundResults = [], timerRef = None, alerts = []\<rparr>"

definition capture :: "Home \<Rightarrow> Captured" where
  "capture s =
     \<lparr>c_selectedPosition = selectedPosition s, c_gamePhase = gamePhase s,
      c_currentLocation = currentLocation s, c_round = round_no s\<rparr>"

text \<open>Reading \<^verbatim>\<open>gameLocations[round - 1]\<close>: \<^verbatim>\<open>undefined\<close> outside the array.\<close>

definition at_index :: "'a list \<Rightarrow> int \<Rightarrow> 'a option" where
  "at_index xs i = (if 0 \<le> i \<and> i < int (length xs) then Some (xs ! nat i) else None)"

text \<open>
  The effect ``create the game locations array when seed and locations are available''.
\<close>

definition gameLocationsEffect :: "Home \<Rightarrow> Home" where
  "gameLocationsEffect s =
     (case seed s of
        None \<Rightarrow> s
      | Some sd \<Rightarrow>
          if 0 < length (locations s)
          then s\<lparr>gameLocations := buildRounds (locations s) sd\<rparr>
          else s)"

text \<open>
  The round initialisation effect. The interval it starts calls the \<^verbatim>\<open>makeGuess\<close> of
  the render the effect belongs to, which has captured the state before the resets below.
\<close>

definition roundInitEffect :: "Home \<Rightarrow> Home" where
  "roundInitEffect s =
     (if length (gameLocations s) = 0 then s
      else if round_no s \<le> 5 then
        s\<lparr>gamePhase := ''exploring'', selectedPosition := None, roundScore := 0,
          showResults := False, timeLeft := 300,
          currentLocation := at_index (gameLocations s) (round_no s - 1),
          timerRef := Some (capture s)\<rparr>
      else s\<lparr>gameOver := True\<rparr>)"

text \<open>
  The body of \<^verbatim>\<open>makeGuess\<close>. It reads the captured values \<open>c\<close>; the state updates with
  an updater function (\<^verbatim>\<open>setScore\<close>, \<^verbatim>\<open>setRoundResults\<close>) read the state \<open>s\<close>.
  \<^verbatim>\<open>clearInterval(timerRef.current)\<close> stops the interval.
\<close>

definition makeGuessIn :: "Captured \<Rightarrow> Home \<Rightarrow> Home" where
  "makeGuessIn c s =
     (if c_selectedPosition c = None \<and> c_gamePhase c = ''guessing''
      then s\<lparr>alerts := alerts s @ [''Please select a location on the map first!'']\<rparr>
      else
        let s1 = s\<lparr>timerRef := None\<rparr> in
        case c_currentLocation c of
          None \<Rightarrow> s1
        | Some loc \<Rightarrow>
            let actualPosition = coordinates loc;
                guessPosition =
                  (case c_selectedPosition c of Some p \<Rightarrow> p | None \<Rightarrow> (28.6024, - 81.2001));
                (points, distanceInMeters) = calculateScore actualPosition guessPosition;
                latDiff = \<bar>fst actualPosition - fst guessPosition\<bar>;
                lngDiff = \<bar>snd actualPosition - snd guessPosition\<bar>;
                distance = sqrt (latDiff * latDiff + lngDiff * lngDiff) * 111000
            in s1\<lparr>roundScore := points,
                  score := score s1 + points,
                  roundResults := roundResults s1 @
                    [\<lparr>r_round = c_round c, r_location = pano_name loc,
                      r_actualPosition = actualPosition, r_guessPosition = guessPosition,
                      r_score = points, r_distance = distance\<rparr>],
                  showResults := True\<rparr>)"

text \<open>The \<^verbatim>\<open>makeGuess\<close> of the current render.\<close>

definition makeGuess :: "Home \<Rightarrow> Home" where
  "makeGuess s = makeGuessIn (capture s) s"

text \<open>
  The three ways a guess is submitted: the key handler
  (\<^verbatim>\<open>e.code === 'Space' && selectedPosition && !showResults\<close>), the Confirm Guess button
  (rendered when neither the game-over screen nor the loading spinner nor the results are
  shown; \<^verbatim>\<open>disabled={!selectedPosition}\<close>), and the tick of the interval.
\<close>

definition handleKeyDown :: "string \<Rightarrow> Home \<Rightarrow> Home" where
  "handleKeyDown code s =
     (if code = ''Space'' \<and> selectedPosition s \<noteq> None \<and> \<not> showResults s
      then makeGuess s else s)"

definition confirmGuessClick :: "Home \<Rightarrow> Home" where
  "confirmGuessClick s =
     (if \<not> gameOver s \<and> \<not> loading s \<and> \<not> showResults s \<and> selectedPosition s \<noteq> None
      then makeGuess s else s)"

definition timerTick :: "Home \<Rightarrow> Home" where
  "timerTick s =
     (case timerRef s of
        None \<Rightarrow> s
      | Some c \<Rightarrow>
          if timeLeft s \<le> 1
          then (makeGuessIn c (s\<lparr>timerRef := None\<rparr>))\<lparr>timeLeft := 0\<rparr>
          else s\<lparr>timeLeft := timeLeft s - 1\<rparr>)"

text \<open>A click on the map (\<^verbatim>\<open>handleMapClick\<close>) selects the position unless the results are shown.\<close>

definition handleMapClick :: "position \<Rightarrow> Home \<Rightarrow> Home" where
  "handleMapClick position s =
     (if \<not> showResults s then s\<lparr>selectedPosition := Some position\<rparr> else s)"

text \<open>The events that can resolve a round, and what each one does to the state.\<close>

datatype trigger = KeyDown string | ConfirmClick | IntervalTick

fun fire :: "trigger \<Rightarrow> Home \<Rightarrow> Home" where
  "fire (KeyDown code) s = handleKeyDown code s"
| "fire ConfirmClick s = confirmGuessClick s"
| "fire IntervalTick s = timerTick s"

subsection \<open>A loaded game\<close>

text \<open>
  Six locations as the loader builds them from the rows of the panorama log, and the state
  of the component once the seed 42 has been read from the address and the list \<open>L\<close> has
  been loaded.
\<close>

definition campus_locations :: "PanoramaLocation list" where
  "campus_locations =
     [\<lparr>pano_id = ''p1'', pano_name = ''UCF Location 1'', pano_image = ''/ucf_panos/p1.jpg'',
       coordinates = (28.6024, - 81.2001)\<rparr>,
      \<lparr>pano_id = ''p2'', pano_name = ''UCF Location 2'', pano_image = ''/ucf_panos/p2.jpg'',
       coordinates = (28.594, - 81.21)\<rparr>,
      \<lparr>pano_id = ''p3'', pano_name = ''UCF Location 3'', pano_image = ''/ucf_panos/p3.jpg'',
       coordinates = (28.61, - 81.19)\<rparr>,
      \<lparr>pano_id = ''p4'', pano_name = ''UCF Location 4'', pano_image = ''/ucf_panos/p4.jpg'',
       coordinates = (28.6, - 81.2)\<rparr>,
      \<lparr>pano_id = ''p5'', pano_name = ''UCF Location 5'', pano_image = ''/ucf_panos/p5.jpg'',
       coordinates = (28.605, - 81.195)\<rparr>,
      \<lparr>pano_id = ''p6'', pano_name = ''UCF Location 6'', pano_image = ''/ucf_panos/p6.jpg'',
       coordinates = (28.598, - 81.205)\<rparr>]"

definition loaded :: "PanoramaLocation list \<Rightarrow> Home" where
  "loaded L = Home_init\<lparr>loading := False, seed := Some 42, locations := L\<rparr>"

text \<open>The state at the start of round 1 of that game with all six locations.\<close>

definition round_one :: Home where
  "round_one = roundInitEffect (gameLocationsEffect (loaded campus_locations))"

section \<open>Rounding to a double\<close>

lemma excess_small: "a < 9007199254740992 \<Longrightarrow> excess a = 0"
  by (subst excess.simps) simp

lemma fl64_exact: "\<bar>x\<bar> < 9007199254740992 \<Longrightarrow> fl64 x = x"
  by (simp add: fl64_def excess_small)

text \<open>An integer that loses \<open>e > 0\<close> bits has at least \<open>53 + e\<close> bits.\<close>

lemma excess_lower: "0 < excess a \<Longrightarrow> 9007199254740992 * 2 ^ (excess a - 1) \<le> a"
proof (induction a rule: excess.induct)
  case (1 a)
  show ?case
  proof (cases "a < 9007199254740992")
    case True
    then have "excess a = 0" by (rule excess_small)
    with "1.prems" show ?thesis by simp
  next
    case False
    then have eq: "excess a = Suc (excess (a div 2))"
      by (subst excess.simps) simp
    show ?thesis
    proof (cases "excess (a div 2) = 0")
      case True
      with eq False show ?thesis by simp
    next
      case deeper: False
      then have "9007199254740992 * 2 ^ (excess (a div 2) - 1) \<le> a div 2"
        using "1.IH" [OF False] by simp
      then have "2 * (9007199254740992 * 2 ^ (excess (a div 2) - 1)) \<le> a"
        by linarith
      moreover have "(2::nat) ^ (excess a - 1) = 2 * 2 ^ (excess (a div 2) - 1)"
        using eq deeper by (cases "excess (a div 2)") simp_all
      ultimately show ?thesis by simp
    qed
  qed
qed

lemma fl64_nonneg: "0 \<le> x \<Longrightarrow> 0 \<le> fl64 x"
  by (auto simp: fl64_def Let_def sgn_if pos_imp_zdiv_nonneg_iff)

text \<open>The relative error of rounding is at most \<open>2\<^sup>-\<^sup>5\<^sup>3\<close>.\<close>

lemma fl64_upper:
  assumes "0 \<le> x"
  shows "fl64 x * 9007199254740992 \<le> x * 9007199254740993"
proof (cases "excess (nat x) = 0")
  case True
  with assms show ?thesis by (simp add: fl64_def)
next
  case False
  define e where "e = excess (nat x)"
  define h :: int where "h = 2 ^ (e - 1)"
  have e: "0 < e" using False by (simp add: e_def)
  then have pe: "(2::int) ^ e = 2 * h"
    by (cases e) (simp_all add: h_def)
  have "9007199254740992 * 2 ^ (e - 1) \<le> nat x"
    using excess_lower [of "nat x"] e by (simp add: e_def)
  then have "int (9007199254740992 * 2 ^ (e - 1)) \<le> int (nat x)"
    by (simp only: of_nat_le_iff)
  then have low: "9007199254740992 * h \<le> x"
    using assms by (simp add: h_def)
  have hpos: "0 < h" by (simp add: h_def)
  define q where "q = x div (2 * h)"
  define r where "r = x mod (2 * h)"
  have x: "x = q * (2 * h) + r"
    unfolding q_def r_def by (rule div_mult_mod_eq [symmetric])
  have r: "0 \<le> r" "r < 2 * h" using hpos by (simp_all add: r_def)
  have xpos: "0 < x" using low hpos by (smt (verit) mult_pos_pos)
  have "fl64 x \<le> x + h"
  proof -
    have h': "(2::int) ^ (e - Suc 0) = h" by (simp add: h_def)
    have f: "fl64 x =
        (if r < h then q else if h < r then q + 1 else if even q then q else q + 1) * (2 * h)"
      using False assms xpos pe
      by (simp add: fl64_def Let_def e_def [symmetric] h' q_def r_def)
    show ?thesis
      unfolding f using r x by (auto simp: algebra_simps)
  qed
  then have "fl64 x * 9007199254740992 \<le> (x + h) * 9007199254740992" by simp
  also have "\<dots> \<le> x * 9007199254740993" using low by (simp add: algebra_simps)
  finally show ?thesis .
qed

section \<open>The shuffle permutes\<close>

text \<open>The index drawn for position \<open>i = n - 1\<close> is one of \<open>0, \<dots>, i\<close>, also after rounding.\<close>

lemma randomIndex_less:
  assumes "0 < n"
  shows "randomIndex u n < n"
proof -
  define p where "p = uint u * int n"
  have u: "uint u \<le> 4294967295"
    using uint_bounded [of u] by simp
  have p0: "0 \<le> p" by (simp add: p_def)
  have "p \<le> 4294967295 * int n"
    unfolding p_def using u by (simp add: mult_right_mono)
  then have "p * 9007199254740993 \<le> (4294967295 * int n) * 9007199254740993" by simp
  with fl64_upper [OF p0]
  have "fl64 p * 9007199254740992 \<le> (4294967295 * int n) * 9007199254740993"
    by linarith
  also have "\<dots> < (4294967296 * int n) * 9007199254740992"
    using assms by simp
  finally have "fl64 p < 4294967296 * int n" by simp
  then have "fl64 p div 4294967296 < int n"
    by linarith
  moreover have "0 \<le> fl64 p div 4294967296"
    using fl64_nonneg [OF p0] by (simp add: pos_imp_zdiv_nonneg_iff)
  ultimately show ?thesis
    by (simp add: randomIndex_def p_def [symmetric])
qed

lemma shuffle_loop_mset:
  "i < length xs \<Longrightarrow> mset (shuffle_loop i sd xs) = mset xs"
proof (induction i sd xs rule: shuffle_loop.induct)
  case (1 i sd shuffled)
  show ?case
  proof (cases "0 < i")
    case False
    then show ?thesis by (subst shuffle_loop.simps) simp
  next
    case True
    obtain sd' u where m: "mulberry32 sd = (sd', u)" by (cases "mulberry32 sd")
    define j where "j = randomIndex u (i + 1)"
    have j: "j < length shuffled"
      using randomIndex_less [of "i + 1" u] "1.prems" by (simp add: j_def)
    let ?ys = "shuffled[i := shuffled ! j, j := shuffled ! i]"
    have "mset (shuffle_loop (i - 1) sd' ?ys) = mset ?ys"
      using "1.IH" [OF True m [symmetric] refl j_def] "1.prems" by simp
    also have "\<dots> = mset shuffled"
      using j "1.prems" by (simp add: mset_swap)
    finally show ?thesis
      using True m by (subst shuffle_loop.simps) (simp add: j_def Let_def)
  qed
qed

lemma getShuffledLocations_mset: "mset (getShuffledLocations L S) = mset L"
proof (cases L)
  case Nil
  then show ?thesis by (simp add: getShuffledLocations_def shuffle_loop.simps)
next
  case (Cons a list)
  then show ?thesis by (simp add: getShuffledLocations_def shuffle_loop_mset)
qed

lemma getShuffledLocations_length: "length (getShuffledLocations L S) = length L"
  using getShuffledLocations_mset [of L S] by (rule mset_eq_length)

text \<open>
  Claim C2. For every location list \<open>L\<close> and every seed \<open>S\<close> the output of the seeded
  shuffle is a permutation of \<open>L\<close>: it has the same multiset of elements, so every
  element of \<open>L\<close> occurs in it exactly as often as in \<open>L\<close>, and it has the length of \<open>L\<close>.
\<close>

theorem shuffle_is_permutation:
  "mset (getShuffledLocations L S) = mset L \<and>
   length (getShuffledLocations L S) = length L \<and>
   set (getShuffledLocations L S) = set L"
proof -
  have "set (getShuffledLocations L S) = set L"
    using getShuffledLocations_mset [of L S] by (rule mset_eq_setD)
  then show ?thesis
    by (simp add: getShuffledLocations_mset getShuffledLocations_length)
qed

section \<open>The shuffle and the 32-bit reference\<close>

subsection \<open>One step of each loop\<close>

lemma shuffle_loop_0: "shuffle_loop 0 sd xs = xs"
  by (subst shuffle_loop.simps) simp

lemma shuffle_loop_step:
  "0 < i \<Longrightarrow> mulberry32 sd = (sd', u) \<Longrightarrow> randomIndex u (i + 1) = j \<Longrightarrow>
   shuffle_loop i sd xs = shuffle_loop (i - 1) sd' (xs[i := xs ! j, j := xs ! i])"
  by (subst shuffle_loop.simps) simp

lemma ref_index_div:
  "nat \<lfloor>real (unat u) / 4294967296 * real n\<rfloor> = (unat u * n) div 4294967296"
proof -
  have "real (unat u) / 4294967296 * real n = real (unat u * n) / real (4294967296::nat)"
    by simp
  then have "\<lfloor>real (unat u) / 4294967296 * real n\<rfloor> = int ((unat u * n) div 4294967296)"
    by (simp only: floor_divide_of_nat_eq)
  then show ?thesis by simp
qed

lemma ref_loop_0: "ref_loop 0 st xs = xs"
  by (subst ref_loop.simps) simp

lemma ref_loop_step:
  assumes "0 < i" "ref_mix (st + 0x6D2B79F5) = u" "(unat u * (i + 1)) div 4294967296 = j"
  shows "ref_loop i st xs = ref_loop (i - 1) (st + 0x6D2B79F5) (xs[i := xs ! j, j := xs ! i])"
proof -
  have "nat \<lfloor>real (unat u) / 4294967296 * real (i + 1)\<rfloor> = j"
    using assms(3) by (simp only: ref_index_div)
  then show ?thesis
    using assms(1,2) by (subst ref_loop.simps) (simp add: ref_random_def Let_def)
qed

subsection \<open>Where the double arithmetic is exact, the two agree\<close>

text \<open>The sum of two 32-bit integers is exact, and \<open>ToInt32\<close> wraps it.\<close>

lemma sint_sum_exact:
  fixes a b :: "32 word"
  shows "ToInt32 (fl64 (sint a + sint b)) = a + b"
proof -
  have "- (2 ^ 31) \<le> sint a" "sint a < 2 ^ 31" "- (2 ^ 31) \<le> sint b" "sint b < 2 ^ 31"
    using sint_ge [of a] sint_lt [of a] sint_ge [of b] sint_lt [of b] by simp_all
  then have "\<bar>sint a + sint b\<bar> < 9007199254740992" by simp
  then have "fl64 (sint a + sint b) = sint a + sint b" by (rule fl64_exact)
  then show ?thesis by (simp add: ToInt32_def)
qed

lemma mulberry32_exact:
  assumes "0 \<le> sd" "sd + 0x6D2B79F5 < 9007199254740992"
  shows "mulberry32 sd = (sd + 0x6D2B79F5, ref_mix (word_of_int sd + 0x6D2B79F5))"
proof -
  have "fl64 (sd + 0x6D2B79F5) = sd + 0x6D2B79F5"
    using assms by (intro fl64_exact) simp
  moreover have "ToInt32 (sd + 0x6D2B79F5) = word_of_int sd + 0x6D2B79F5"
    by (simp add: ToInt32_def)
  ultimately show ?thesis
    by (simp add: mulberry32_def ref_mix_def Let_def sint_sum_exact imul_def)
qed

lemma randomIndex_exact:
  assumes "n \<le> 2097152"
  shows "randomIndex u n = nat \<lfloor>real (unat u) / 4294967296 * real n\<rfloor>"
proof -
  have "uint u < 4294967296" using uint_bounded [of u] by simp
  moreover have "0 \<le> uint u" by simp
  ultimately have "uint u * int n \<le> 4294967295 * 2097152"
    using assms by (intro mult_mono) simp_all
  then have "\<bar>uint u * int n\<bar> < 9007199254740992" by simp
  then have ex: "fl64 (uint u * int n) = uint u * int n" by (rule fl64_exact)
  have "uint u * int n div 4294967296 = int ((unat u * n) div 4294967296)"
    by (simp add: zdiv_int)
  then have "randomIndex u n = (unat u * n) div 4294967296"
    by (simp add: randomIndex_def ex)
  then show ?thesis
    by (simp only: ref_index_div)
qed

lemma shuffle_loop_ref:
  assumes "0 \<le> sd" "sd + int i * 0x6D2B79F5 < 9007199254740992" "i < 2097152"
  shows "shuffle_loop i sd xs = ref_loop i (word_of_int sd) xs"
  using assms
proof (induction i sd xs rule: shuffle_loop.induct)
  case (1 i sd shuffled)
  show ?case
  proof (cases "0 < i")
    case False
    then show ?thesis by (simp add: shuffle_loop_0 ref_loop_0)
  next
    case True
    have "int i * 0x6D2B79F5 \<ge> 0x6D2B79F5" using True by simp
    then have step: "sd + 0x6D2B79F5 < 9007199254740992" using "1.prems" by linarith
    define u where "u = ref_mix (word_of_int sd + 0x6D2B79F5)"
    have m: "mulberry32 sd = (sd + 0x6D2B79F5, u)"
      unfolding u_def using "1.prems"(1) step by (rule mulberry32_exact)
    define j where "j = randomIndex u (i + 1)"
    have "j = nat \<lfloor>real (unat u) / 4294967296 * real (i + 1)\<rfloor>"
      unfolding j_def using "1.prems"(3) by (intro randomIndex_exact) simp
    then have j: "(unat u * (i + 1)) div 4294967296 = j"
      by (simp only: ref_index_div)
    let ?ys = "shuffled[i := shuffled ! j, j := shuffled ! i]"
    have "int (i - 1) = int i - 1" using True by simp
    then have "sd + 0x6D2B79F5 + int (i - 1) * 0x6D2B79F5 = sd + int i * 0x6D2B79F5"
      by (simp add: algebra_simps)
    then have IH: "shuffle_loop (i - 1) (sd + 0x6D2B79F5) ?ys
          = ref_loop (i - 1) (word_of_int (sd + 0x6D2B79F5)) ?ys"
      using "1.IH" [OF True m [symmetric] refl j_def] "1.prems" by simp
    have "shuffle_loop i sd shuffled = shuffle_loop (i - 1) (sd + 0x6D2B79F5) ?ys"
      by (rule shuffle_loop_step [OF True m j_def [symmetric]])
    also note IH
    also have "word_of_int (sd + 0x6D2B79F5) = (word_of_int sd + 0x6D2B79F5 :: 32 word)"
      by simp
    also have "ref_loop (i - 1) (word_of_int sd + 0x6D2B79F5) ?ys = ref_loop i (word_of_int sd) shuffled"
      by (rule ref_loop_step [OF True u_def [symmetric] j, symmetric])
    finally show ?thesis .
  qed
qed

subsection \<open>Positions above the loop index are final\<close>

lemma shuffle_loop_above:
  "i < k \<Longrightarrow> k < length xs \<Longrightarrow> shuffle_loop i sd xs ! k = xs ! k"
proof (induction i sd xs rule: shuffle_loop.induct)
  case (1 i sd shuffled)
  show ?case
  proof (cases "0 < i")
    case False
    then show ?thesis by (simp add: shuffle_loop_0)
  next
    case True
    obtain sd' u where m: "mulberry32 sd = (sd', u)" by (cases "mulberry32 sd")
    define j where "j = randomIndex u (i + 1)"
    have j: "j < i + 1" unfolding j_def by (rule randomIndex_less) simp
    let ?ys = "shuffled[i := shuffled ! j, j := shuffled ! i]"
    have "shuffle_loop i sd shuffled = shuffle_loop (i - 1) sd' ?ys"
      by (rule shuffle_loop_step [OF True m j_def [symmetric]])
    then have "shuffle_loop i sd shuffled ! k = shuffle_loop (i - 1) sd' ?ys ! k"
      by (simp only:)
    also have "\<dots> = ?ys ! k"
      using "1.IH" [OF True m [symmetric] refl j_def] "1.prems" by simp
    also have "\<dots> = shuffled ! k"
      using j "1.prems" by simp
    finally show ?thesis .
  qed
qed

lemma ref_index_less:
  assumes "0 < n"
  shows "(unat (u :: 32 word) * n) div 4294967296 < n"
proof -
  have "unat u < 4294967296" using unsigned_less [of u, where ?'a = nat] by simp
  then have "unat u * n < 4294967296 * n" using assms by simp
  then show ?thesis
    by (simp add: less_mult_imp_div_less mult.commute)
qed

lemma ref_loop_above:
  "i < k \<Longrightarrow> k < length xs \<Longrightarrow> ref_loop i st xs ! k = xs ! k"
proof (induction i st xs rule: ref_loop.induct)
  case (1 i st xs)
  show ?case
  proof (cases "0 < i")
    case False
    then show ?thesis by (simp add: ref_loop_0)
  next
    case True
    define u where "u = ref_mix (st + 0x6D2B79F5)"
    define j where "j = (unat u * (i + 1)) div 4294967296"
    have jr: "j = nat \<lfloor>real (unat u) / 4294967296 * real (i + 1)\<rfloor>"
      unfolding j_def by (simp only: ref_index_div)
    have j: "j < i + 1" unfolding j_def by (rule ref_index_less) simp
    let ?ys = "xs[i := xs ! j, j := xs ! i]"
    have r: "ref_random st = (st + 0x6D2B79F5, real (unat u) / 4294967296)"
      by (simp add: ref_random_def u_def Let_def)
    have "ref_loop i st xs = ref_loop (i - 1) (st + 0x6D2B79F5) ?ys"
      by (rule ref_loop_step [OF True u_def [symmetric] j_def [symmetric]])
    then have "ref_loop i st xs ! k = ref_loop (i - 1) (st + 0x6D2B79F5) ?ys ! k"
      by (simp only:)
    also have "\<dots> = ?ys ! k"
      using "1.IH" [OF True r [symmetric] refl, of j] "1.prems" jr by simp
    also have "\<dots> = xs ! k"
      using j "1.prems" by simp
    finally show ?thesis .
  qed
qed

subsection \<open>Two inputs on which they differ\<close>

text \<open>
  Seed \<open>2\<^sup>5\<^sup>3\<close> (the page accepts any number as \<^verbatim>\<open>?seed=\<close>): the sum
  \<open>2\<^sup>5\<^sup>3 + 0x6D2B79F5\<close> is odd and has 54 bits, so the variable \<^verbatim>\<open>seed\<close> becomes the even
  neighbour, and its low 32 bits are not those of the wrapped sum.
\<close>

lemma excess_step: "\<not> a < 9007199254740992 \<Longrightarrow> excess a = Suc (excess (a div 2))"
  by (subst excess.simps) simp

lemma mulberry32_at_2_53: "mulberry32 9007199254740992 = (9007201086306804, 3850105811)"
  by (simp add: mulberry32_def fl64_def excess_small excess_step ToInt32_def imul_def Let_def)

lemma randomIndex_at_2_53: "randomIndex 3850105811 (1 + 1) = 1"
  by (simp add: randomIndex_def fl64_def excess_small Let_def)

lemma getShuffledLocations_at_2_53:
  "getShuffledLocations [''A'', ''B''] 9007199254740992 = [''A'', ''B'']"
proof -
  have "shuffle_loop 1 9007199254740992 [''A'', ''B''] =
      shuffle_loop (1 - 1) 9007201086306804
        ([''A'', ''B''][1 := [''A'', ''B''] ! 1, 1 := [''A'', ''B''] ! 1])"
    by (rule shuffle_loop_step [OF _ mulberry32_at_2_53 randomIndex_at_2_53]) simp
  then show ?thesis
    by (simp add: getShuffledLocations_def shuffle_loop_0)
qed

lemma ref_mix_at_2_53:
  "ref_mix ((word_of_int 9007199254740992 :: 32 word) + 0x6D2B79F5) = 1144304738"
  by (simp add: ref_mix_def Let_def)

lemma ref_index_at_2_53: "(unat (1144304738 :: 32 word) * (1 + 1)) div 4294967296 = 0"
  by simp

lemma shuffle_ref_at_2_53:
  "shuffle_ref [''A'', ''B''] (word_of_int 9007199254740992) = [''B'', ''A'']"
proof -
  have "ref_loop 1 (word_of_int 9007199254740992) [''A'', ''B''] =
      ref_loop (1 - 1) (word_of_int 9007199254740992 + 0x6D2B79F5)
        ([''A'', ''B''][1 := [''A'', ''B''] ! 0, 0 := [''A'', ''B''] ! 1])"
    by (rule ref_loop_step [OF _ ref_mix_at_2_53 ref_index_at_2_53]) simp
  then show ?thesis
    by (simp add: shuffle_ref_def ref_loop_0)
qed

text \<open>
  Seed 7020 and 2929307 locations: the first draw is \<open>u = 3619495021\<close>, and
  \<open>u * 2929307 = 2468613 * 2\<^sup>3\<^sup>2 - 1\<close> has 54 bits. The double product rounds up to
  \<open>2468613 * 2\<^sup>3\<^sup>2\<close>, so \<^verbatim>\<open>Math.floor\<close> gives 2468613 where the exact product gives
  2468612. The last position is final after the first step.
\<close>

lemma location_ids_length: "length location_ids = 2929307"
  by (simp add: location_ids_def)

lemma location_ids_nth: "j < 2929307 \<Longrightarrow> location_ids ! j = j"
  unfolding location_ids_def by (subst nth_upt) simp_all

lemma mulberry32_at_7020: "mulberry32 7020 = (1831572833, 3619495021)"
  by (simp add: mulberry32_def fl64_def excess_small excess_step ToInt32_def imul_def Let_def)

lemma randomIndex_at_7020: "randomIndex 3619495021 (2929306 + 1) = 2468613"
  by (simp add: randomIndex_def fl64_def excess_small excess_step Let_def)

lemma ref_mix_at_7020: "ref_mix ((word_of_int 7020 :: 32 word) + 0x6D2B79F5) = 3619495021"
  by (simp add: ref_mix_def Let_def)

lemma ref_index_at_7020:
  "(unat (3619495021 :: 32 word) * (2929306 + 1)) div 4294967296 = 2468612"
  by simp

lemma getShuffledLocations_at_7020:
  "getShuffledLocations location_ids 7020 ! 2929306 = 2468613"
proof -
  let ?ys = "location_ids[2929306 := location_ids ! 2468613, 2468613 := location_ids ! 2929306]"
  have "shuffle_loop 2929306 7020 location_ids = shuffle_loop (2929306 - 1) 1831572833 ?ys"
    by (rule shuffle_loop_step [OF _ mulberry32_at_7020 randomIndex_at_7020]) simp
  moreover have "shuffle_loop (2929306 - 1) 1831572833 ?ys ! 2929306 = ?ys ! 2929306"
    by (rule shuffle_loop_above) (simp_all add: location_ids_length)
  moreover have "?ys ! 2929306 = 2468613"
    by (simp add: location_ids_length location_ids_nth)
  ultimately show ?thesis
    by (simp add: getShuffledLocations_def location_ids_length)
qed

lemma shuffle_ref_at_7020:
  "shuffle_ref location_ids (word_of_int 7020) ! 2929306 = 2468612"
proof -
  let ?ys = "location_ids[2929306 := location_ids ! 2468612, 2468612 := location_ids ! 2929306]"
  have "ref_loop 2929306 (word_of_int 7020) location_ids
      = ref_loop (2929306 - 1) (word_of_int 7020 + 0x6D2B79F5) ?ys"
    by (rule ref_loop_step [OF _ ref_mix_at_7020 ref_index_at_7020]) simp
  moreover have
    "ref_loop (2929306 - 1) (word_of_int 7020 + 0x6D2B79F5) ?ys ! 2929306 = ?ys ! 2929306"
    by (rule ref_loop_above) (simp_all add: location_ids_length)
  moreover have "?ys ! 2929306 = 2468612"
    by (simp add: location_ids_length location_ids_nth)
  ultimately show ?thesis
    by (simp add: shuffle_ref_def location_ids_length)
qed

text \<open>
  Claim C3, as stated: the shuffle equals the 32-bit wrap-around reference for every
  input list and seed. It does not: not at seed \<open>2\<^sup>5\<^sup>3\<close> with two locations, where the
  variable \<^verbatim>\<open>seed\<close> is rounded instead of wrapped, and not at seed 7020 with 2929307
  locations, where the product \<^verbatim>\<open>random() * (i + 1)\<close> is rounded up to an integer.
\<close>

theorem shuffle_differs_from_reference:
  "getShuffledLocations [''A'', ''B''] 9007199254740992
     \<noteq> shuffle_ref [''A'', ''B''] (word_of_int 9007199254740992) \<and>
   getShuffledLocations location_ids 7020 \<noteq> shuffle_ref location_ids (word_of_int 7020)"
proof
  show "getShuffledLocations [''A'', ''B''] 9007199254740992
     \<noteq> shuffle_ref [''A'', ''B''] (word_of_int 9007199254740992)"
    using getShuffledLocations_at_2_53 shuffle_ref_at_2_53 by simp
  show "getShuffledLocations location_ids 7020 \<noteq> shuffle_ref location_ids (word_of_int 7020)"
  proof
    assume "getShuffledLocations location_ids 7020 = shuffle_ref location_ids (word_of_int 7020)"
    then have "getShuffledLocations location_ids 7020 ! 2929306
        = shuffle_ref location_ids (word_of_int 7020) ! 2929306"
      by (rule arg_cong)
    then show False
      unfolding getShuffledLocations_at_7020 shuffle_ref_at_7020 by simp
  qed
qed

text \<open>
  Claim C3, amended: for every seed that is a 32-bit unsigned integer and every list of
  at most \<open>2\<^sup>2\<^sup>1 = 2097152\<close> locations, the shuffle equals the reference algorithm run
  from the same seed: the Fisher-Yates loop with \<open>i\<close> descending from \<open>length - 1\<close> to
  \<open>1\<close> and \<open>j = floor (random () * (i + 1))\<close>, driven by the generator that adds
  \<open>0x6D2B79F5\<close> to a 32-bit state, mixes it in two xor-shift/multiply rounds and
  returns the 32 bits scaled into \<open>[0,1)\<close>, in 32-bit wrap-around arithmetic.
\<close>

theorem shuffle_refines_reference:
  assumes "0 \<le> S" "S < 4294967296" "length L \<le> 2097152"
  shows "getShuffledLocations L S = shuffle_ref L (word_of_int S)"
proof -
  have "int (length L - 1) \<le> 2097151" using assms(3) by simp
  then have "int (length L - 1) * 0x6D2B79F5 \<le> 2097151 * 0x6D2B79F5"
    by (intro mult_right_mono) simp_all
  then have "S + int (length L - 1) * 0x6D2B79F5 < 9007199254740992"
    using assms(2) by simp
  moreover have "length L - 1 < 2097152" using assms(3) by simp
  ultimately show ?thesis
    unfolding getShuffledLocations_def shuffle_ref_def
    using assms(1) by (intro shuffle_loop_ref)
qed

theorem shuffle_refines_reference_witness:
  "(0::int) \<le> 42 \<and> (42::int) < 4294967296 \<and>
   length [''A'', ''B'', ''C'', ''D'', ''E'', ''F''] \<le> 2097152 \<and>
   getShuffledLocations [''A'', ''B'', ''C'', ''D'', ''E'', ''F''] 42
     = shuffle_ref [''A'', ''B'', ''C'', ''D'', ''E'', ''F''] (word_of_int 42)"
  using shuffle_refines_reference [of 42 "[''A'', ''B'', ''C'', ''D'', ''E'', ''F'']"] by simp

section \<open>The shuffle on the store\<close>

text \<open>The loop writes to the array \<open>p\<close> only, and leaves there the shuffle of its value.\<close>

lemma shuffle_loop_st_eq:
  "p < length h \<Longrightarrow> shuffle_loop_st i sd p h = h[p := shuffle_loop i sd (h ! p)]"
proof (induction i sd p h rule: shuffle_loop_st.induct)
  case (1 i sd p h)
  show ?case
  proof (cases "0 < i")
    case False
    then show ?thesis
      by (subst shuffle_loop_st.simps) (simp add: shuffle_loop_0)
  next
    case True
    obtain sd' u where m: "mulberry32 sd = (sd', u)" by (cases "mulberry32 sd")
    define j where "j = randomIndex u (i + 1)"
    define arr where "arr = h ! p"
    let ?arr' = "arr[i := arr ! j, j := arr ! i]"
    have "shuffle_loop_st i sd p h = shuffle_loop_st (i - 1) sd' p (h[p := ?arr'])"
      using True m by (subst shuffle_loop_st.simps) (simp add: Let_def j_def arr_def)
    also have "\<dots> = (h[p := ?arr'])[p := shuffle_loop (i - 1) sd' ((h[p := ?arr']) ! p)]"
      using "1.IH" [OF True m [symmetric] refl j_def arr_def] "1.prems" by simp
    also have "\<dots> = h[p := shuffle_loop (i - 1) sd' ?arr']"
      using "1.prems" by simp
    also have "shuffle_loop (i - 1) sd' ?arr' = shuffle_loop i sd arr"
      by (rule shuffle_loop_step [OF True m j_def [symmetric], symmetric])
    finally show ?thesis by (simp add: arr_def)
  qed
qed

lemma getShuffledLocations_st_eq:
  assumes "a < length h"
  shows "getShuffledLocations_st h a S = (length h, h @ [getShuffledLocations (h ! a) S])"
proof -
  have "shuffle_loop_st (length (h ! a) - 1) S (length h) (h @ [h ! a])
      = (h @ [h ! a])[length h := shuffle_loop (length (h ! a) - 1) S ((h @ [h ! a]) ! length h)]"
    by (rule shuffle_loop_st_eq) simp
  then show ?thesis
    by (simp add: getShuffledLocations_st_def spread_def getShuffledLocations_def)
qed

text \<open>
  Claim C10. The seeded shuffle never mutates its input: it works on a fresh copy. When
  \<open>locs\<close> is an array of the store, after the call that array, and every other array
  that existed before, holds the same elements in the same order as before; the array
  returned is a new one, and it holds the shuffle of the input.
\<close>

theorem shuffle_copies_its_input:
  assumes "locs < length h"
    and "getShuffledLocations_st h locs S = (shuffled, h')"
  shows "h' ! locs = h ! locs \<and> take (length h) h' = h \<and>
         shuffled = length h \<and> h' ! shuffled = getShuffledLocations (h ! locs) S"
  using assms by (auto simp: getShuffledLocations_st_eq nth_append)

theorem shuffle_copies_its_input_witness:
  "(0::nat) < length [[''A'', ''B'', ''C'']] \<and>
   snd (getShuffledLocations_st [[''A'', ''B'', ''C'']] 0 42) ! 0 = [''A'', ''B'', ''C''] \<and>
   take 1 (snd (getShuffledLocations_st [[''A'', ''B'', ''C'']] 0 42)) = [[''A'', ''B'', ''C'']] \<and>
   fst (getShuffledLocations_st [[''A'', ''B'', ''C'']] 0 42) = 1"
  using shuffle_copies_its_input [of 0 "[[''A'', ''B'', ''C'']]" 42
      "fst (getShuffledLocations_st [[''A'', ''B'', ''C'']] 0 42)"
      "snd (getShuffledLocations_st [[''A'', ''B'', ''C'']] 0 42)"]
  by simp

text \<open>
  Claim C1. Running the derivation of the round sequence (shuffle the location list with
  seed \<open>S\<close>, take the first five) twice on the same location list and seed gives the
  same ordered output, for every seed and every list: the second call returns an array
  with the same elements as the first, the first result is not disturbed by the second
  call, and both prefixes are \<open>buildRounds\<close> of the list and the seed.
\<close>

theorem round_sequence_deterministic:
  assumes "locs < length h"
    and "getShuffledLocations_st h locs S = (shuffled1, h1)"
    and "getShuffledLocations_st h1 locs S = (shuffled2, h2)"
  shows "take 5 (h2 ! shuffled2) = take 5 (h1 ! shuffled1) \<and>
         h2 ! shuffled2 = h1 ! shuffled1 \<and>
         h2 ! shuffled1 = h1 ! shuffled1 \<and>
         take 5 (h1 ! shuffled1) = buildRounds (h ! locs) S"
proof -
  have 1: "shuffled1 = length h" "h1 = h @ [getShuffledLocations (h ! locs) S]"
    using assms(1,2) by (simp_all add: getShuffledLocations_st_eq)
  then have l: "locs < length h1" using assms(1) by simp
  have "h1 ! locs = h ! locs" using assms(1) 1 by (simp add: nth_append)
  then have 2: "shuffled2 = length h1" "h2 = h1 @ [getShuffledLocations (h ! locs) S]"
    using assms(3) l by (simp_all add: getShuffledLocations_st_eq)
  show ?thesis
    using 1 2 by (simp add: nth_append buildRounds_def)
qed

theorem round_sequence_deterministic_witness:
  "(0::nat) < length [[''A'', ''B'', ''C'']] \<and>
   take 5 (snd (getShuffledLocations_st (snd (getShuffledLocations_st [[''A'', ''B'', ''C'']] 0 42)) 0 42)
      ! fst (getShuffledLocations_st (snd (getShuffledLocations_st [[''A'', ''B'', ''C'']] 0 42)) 0 42))
   = take 5 (snd (getShuffledLocations_st [[''A'', ''B'', ''C'']] 0 42)
      ! fst (getShuffledLocations_st [[''A'', ''B'', ''C'']] 0 42))"
  using round_sequence_deterministic [of 0 "[[''A'', ''B'', ''C'']]" 42
      "fst (getShuffledLocations_st [[''A'', ''B'', ''C'']] 0 42)"
      "snd (getShuffledLocations_st [[''A'', ''B'', ''C'']] 0 42)"
      "fst (getShuffledLocations_st (snd (getShuffledLocations_st [[''A'', ''B'', ''C'']] 0 42)) 0 42)"
      "snd (getShuffledLocations_st (snd (getShuffledLocations_st [[''A'', ''B'', ''C'']] 0 42)) 0 42)"]
  by simp

section \<open>Deriving the game locations\<close>

lemma buildRounds_length: "length (buildRounds L S) = min (length L) 5"
  by (simp add: buildRounds_def getShuffledLocations_length)

lemma campus_locations_length: "length campus_locations = 6"
  by (simp add: campus_locations_def)

text \<open>
  Claim C4, as stated: with fewer than 5 locations the derivation returns an empty
  sequence and no round can start. With three locations it does not: the game locations
  are the three, shuffled, and the round initialisation sets the current location and
  starts the countdown.
\<close>

theorem short_list_starts_a_round:
  "gameLocations (gameLocationsEffect (loaded (take 3 campus_locations))) \<noteq> [] \<and>
   length (gameLocations (gameLocationsEffect (loaded (take 3 campus_locations)))) = 3 \<and>
   timerRef (roundInitEffect (gameLocationsEffect (loaded (take 3 campus_locations)))) \<noteq> None \<and>
   currentLocation (roundInitEffect (gameLocationsEffect (loaded (take 3 campus_locations)))) \<noteq> None"
proof -
  define s where "s = gameLocationsEffect (loaded (take 3 campus_locations))"
  have s: "s = (loaded (take 3 campus_locations))\<lparr>gameLocations := buildRounds (take 3 campus_locations) 42\<rparr>"
    by (simp add: s_def gameLocationsEffect_def loaded_def Home_init_def campus_locations_length)
  have len: "length (gameLocations s) = 3"
    by (simp add: s buildRounds_length campus_locations_length)
  then have ne: "gameLocations s \<noteq> []" by auto
  have r: "round_no s = 1" by (simp add: s loaded_def Home_init_def)
  have "timerRef (roundInitEffect s) \<noteq> None"
    using len r by (simp add: roundInitEffect_def)
  moreover have "currentLocation (roundInitEffect s) \<noteq> None"
    using len r by (simp add: roundInitEffect_def at_index_def)
  ultimately show ?thesis
    using len ne unfolding s_def by simp
qed

text \<open>
  Claim C4, amended. For every seed \<open>S\<close>: with at least 5 locations the game locations
  are exactly the first 5 elements of the shuffle of the list with \<open>S\<close>; with no
  location the effect derives nothing, and with no game location the round
  initialisation does nothing (no round starts); with 1 to 4 locations the game
  locations are the whole shuffle of the list, and the round initialisation starts the
  countdown of a round.
\<close>

theorem game_locations_by_length:
  assumes "seed s = Some S"
  shows "(5 \<le> length (locations s) \<longrightarrow>
            gameLocations (gameLocationsEffect s) = take 5 (getShuffledLocations (locations s) S) \<and>
            length (gameLocations (gameLocationsEffect s)) = 5) \<and>
         (locations s = [] \<longrightarrow> gameLocationsEffect s = s) \<and>
         (gameLocations s = [] \<longrightarrow> roundInitEffect s = s) \<and>
         (0 < length (locations s) \<and> length (locations s) < 5 \<longrightarrow>
            gameLocations (gameLocationsEffect s) = getShuffledLocations (locations s) S \<and>
            length (gameLocations (gameLocationsEffect s)) = length (locations s) \<and>
            (round_no s \<le> 5 \<longrightarrow> timerRef (roundInitEffect (gameLocationsEffect s)) \<noteq> None))"
  using assms
  by (auto simp: gameLocationsEffect_def buildRounds_def getShuffledLocations_length
      roundInitEffect_def)

theorem game_locations_by_length_witness:
  "gameLocations (gameLocationsEffect (loaded campus_locations))
     = take 5 (getShuffledLocations campus_locations 42) \<and>
   gameLocationsEffect (loaded []) = loaded [] \<and>
   roundInitEffect (gameLocationsEffect (loaded [])) = loaded [] \<and>
   gameLocations (gameLocationsEffect (loaded (take 3 campus_locations)))
     = getShuffledLocations (take 3 campus_locations) 42"
  using game_locations_by_length [of "loaded campus_locations" 42]
    game_locations_by_length [of "loaded []" 42]
    game_locations_by_length [of "loaded (take 3 campus_locations)" 42]
  by (simp add: loaded_def Home_init_def campus_locations_length)

section \<open>Properties of the distance and the score\<close>

subsection \<open>The haversine of two points lies between 0 and 1\<close>

lemma abs_prod_le_half_squares: "\<bar>x * y\<bar> \<le> (x\<^sup>2 + y\<^sup>2) / (2::real)"
proof -
  have "0 \<le> (\<bar>x\<bar> - \<bar>y\<bar>)\<^sup>2" by simp
  also have "(\<bar>x\<bar> - \<bar>y\<bar>)\<^sup>2 = x\<^sup>2 + y\<^sup>2 - 2 * \<bar>x * y\<bar>"
    by (simp add: power2_diff abs_mult)
  finally show ?thesis by simp
qed

lemma hav_eq:
  fixes p q l :: real
  shows "(sin ((q - p) / 2))\<^sup>2 + cos p * cos q * (sin (l / 2))\<^sup>2
       = (1 - (sin p * sin q + cos p * cos q * cos l)) / 2"
proof -
  have half: "(sin (x / 2))\<^sup>2 = (1 - cos x) / 2" for x :: real
  proof -
    have "cos x = cos (2 * (x / 2))" by simp
    also have "\<dots> = 1 - 2 * (sin (x / 2))\<^sup>2" by (rule cos_double_sin)
    finally show ?thesis by simp
  qed
  have 1: "(sin ((q - p) / 2))\<^sup>2 = (1 - cos (q - p)) / 2" by (rule half)
  have 2: "(sin (l / 2))\<^sup>2 = (1 - cos l) / 2" by (rule half)
  show ?thesis
    unfolding 1 2 by (simp add: cos_diff field_simps)
qed

lemma hav_range:
  fixes p q l :: real
  defines "a \<equiv> (sin ((q - p) / 2))\<^sup>2 + cos p * cos q * (sin (l / 2))\<^sup>2"
  shows "0 \<le> a" and "a \<le> 1"
proof -
  let ?w = "sin p * sin q + cos p * cos q * cos l"
  have "\<bar>cos p * cos q * cos l\<bar> \<le> \<bar>cos p * cos q\<bar>"
    using abs_cos_le_one [of l] by (simp add: abs_mult mult_left_le)
  then have "\<bar>?w\<bar> \<le> \<bar>sin p * sin q\<bar> + \<bar>cos p * cos q\<bar>"
    by linarith
  also have "\<dots> \<le> ((sin p)\<^sup>2 + (sin q)\<^sup>2) / 2 + ((cos p)\<^sup>2 + (cos q)\<^sup>2) / 2"
    by (intro add_mono abs_prod_le_half_squares)
  also have "\<dots> = 1"
    unfolding sin_squared_eq [of p] sin_squared_eq [of q] by (simp add: field_simps)
  finally have w: "\<bar>?w\<bar> \<le> 1" .
  have a: "a = (1 - ?w) / 2" unfolding a_def by (rule hav_eq)
  show "0 \<le> a" "a \<le> 1" using w unfolding a by simp_all
qed

subsection \<open>The distance of the code is the haversine distance\<close>

lemma atan2_sqrt:
  assumes "0 \<le> a" "a \<le> 1"
  shows "atan2 (sqrt a) (sqrt (1 - a)) = arcsin (sqrt a)"
proof (cases "a = 1")
  case True
  then show ?thesis by (simp add: atan2_def)
next
  case False
  with assms have lt: "a < 1" by simp
  then have x: "0 < sqrt (1 - a)" by simp
  have "sqrt a < 1" using lt assms by (simp add: real_sqrt_lt_1_iff)
  moreover have "- 1 < sqrt a" using assms by (smt (verit) real_sqrt_ge_zero)
  ultimately have "arcsin (sqrt a) = arctan (sqrt a / sqrt (1 - (sqrt a)\<^sup>2))"
    by (intro arcsin_arctan)
  also have "(sqrt a)\<^sup>2 = a" using assms by simp
  finally show ?thesis using x by (simp add: atan2_def)
qed

lemma distanceMiles_haversine: "distanceMiles R p q = haversine_spec R p q"
proof -
  define a where "a = (sin ((fst q * pi / 180 - fst p * pi / 180) / 2))\<^sup>2 +
      cos (fst p * pi / 180) * cos (fst q * pi / 180) * (sin ((snd q - snd p) * pi / 180 / 2))\<^sup>2"
  have r: "0 \<le> a" "a \<le> 1" unfolding a_def by (rule hav_range)+
  have a': "a = (sin ((fst q - fst p) * pi / 180 / 2))\<^sup>2 +
      cos (fst p * pi / 180) * cos (fst q * pi / 180) * (sin ((snd q - snd p) * pi / 180 / 2))\<^sup>2"
    unfolding a_def by (simp add: algebra_simps diff_divide_distrib)
  have "distanceMiles R p q = R * (2 * atan2 (sqrt a) (sqrt (1 - a)))"
    unfolding a' by (simp add: distanceMiles_def toRadians_def Let_def power2_eq_square algebra_simps)
  also have "\<dots> = 2 * R * arcsin (sqrt a)"
    using r by (simp add: atan2_sqrt)
  finally show ?thesis unfolding a' haversine_spec_def .
qed




subsection \<open>The score as a function of the distance\<close>








section \<open>A game with seed 42\<close>

text \<open>The five draws of the shuffle of six locations with seed 42.\<close>

lemma mulberry32_42_1: "mulberry32 42 = (1831565855, 2581720956)"
  by (simp add: mulberry32_def fl64_def excess_small ToInt32_def imul_def Let_def)
lemma mulberry32_42_2: "mulberry32 1831565855 = (3663131668, 1925393290)"
  by (simp add: mulberry32_def fl64_def excess_small ToInt32_def imul_def Let_def)
lemma mulberry32_42_3: "mulberry32 3663131668 = (5494697481, 3661312704)"
  by (simp add: mulberry32_def fl64_def excess_small ToInt32_def imul_def Let_def)
lemma mulberry32_42_4: "mulberry32 5494697481 = (7326263294, 2876485805)"
  by (simp add: mulberry32_def fl64_def excess_small ToInt32_def imul_def Let_def)
lemma mulberry32_42_5: "mulberry32 7326263294 = (9157829107, 750819978)"
  by (simp add: mulberry32_def fl64_def excess_small ToInt32_def imul_def Let_def)

lemma randomIndex_42_1: "randomIndex 2581720956 (5 + 1) = 3"
  by (simp add: randomIndex_def fl64_def excess_small Let_def)
lemma randomIndex_42_2: "randomIndex 1925393290 (4 + 1) = 2"
  by (simp add: randomIndex_def fl64_def excess_small Let_def)
lemma randomIndex_42_3: "randomIndex 3661312704 (3 + 1) = 3"
  by (simp add: randomIndex_def fl64_def excess_small Let_def)
lemma randomIndex_42_4: "randomIndex 2876485805 (2 + 1) = 2"
  by (simp add: randomIndex_def fl64_def excess_small Let_def)
lemma randomIndex_42_5: "randomIndex 750819978 (1 + 1) = 0"
  by (simp add: randomIndex_def fl64_def excess_small Let_def)

lemma getShuffledLocations_42:
  "getShuffledLocations [a, b, c, d, e, f] 42 = [b, a, e, f, c, d]"
proof -
  have "shuffle_loop 5 42 [a, b, c, d, e, f] = shuffle_loop 4 1831565855 [a, b, c, f, e, d]"
    using shuffle_loop_step [OF _ mulberry32_42_1 randomIndex_42_1, of "[a, b, c, d, e, f]"]
    by simp
  also have "\<dots> = shuffle_loop 3 3663131668 [a, b, e, f, c, d]"
    using shuffle_loop_step [OF _ mulberry32_42_2 randomIndex_42_2, of "[a, b, c, f, e, d]"]
    by simp
  also have "\<dots> = shuffle_loop 2 5494697481 [a, b, e, f, c, d]"
    using shuffle_loop_step [OF _ mulberry32_42_3 randomIndex_42_3, of "[a, b, e, f, c, d]"]
    by simp
  also have "\<dots> = shuffle_loop 1 7326263294 [a, b, e, f, c, d]"
    using shuffle_loop_step [OF _ mulberry32_42_4 randomIndex_42_4, of "[a, b, e, f, c, d]"]
    by simp
  also have "\<dots> = shuffle_loop 0 9157829107 [b, a, e, f, c, d]"
    using shuffle_loop_step [OF _ mulberry32_42_5 randomIndex_42_5, of "[a, b, e, f, c, d]"]
    by simp
  finally have "shuffle_loop 5 42 [a, b, c, d, e, f] = [b, a, e, f, c, d]"
    by (simp add: shuffle_loop_0)
  moreover have "length [a, b, c, d, e, f] - 1 = 5" by simp
  ultimately show ?thesis
    unfolding getShuffledLocations_def by (simp only:)
qed

text \<open>The game locations and the state at the start of round 1.\<close>

lemma campus_game_locations:
  "gameLocations (gameLocationsEffect (loaded campus_locations))
     = [campus_locations ! 1, campus_locations ! 0, campus_locations ! 4,
        campus_locations ! 5, campus_locations ! 2]"
  by (simp add: gameLocationsEffect_def loaded_def buildRounds_def campus_locations_def
      getShuffledLocations_42)

lemma round_one_eq:
  "round_one = (loaded campus_locations)
     \<lparr>gameLocations := [campus_locations ! 1, campus_locations ! 0, campus_locations ! 4,
        campus_locations ! 5, campus_locations ! 2],
      currentLocation := Some (campus_locations ! 1),
      timerRef := Some (capture (loaded campus_locations))\<rparr>"
  by (simp add: round_one_def roundInitEffect_def gameLocationsEffect_def loaded_def
      buildRounds_def campus_locations_def getShuffledLocations_42 Home_init_def at_index_def
      capture_def)

lemma round_one_fields:
  "selectedPosition round_one = None" "gamePhase round_one = ''exploring''"
  "currentLocation round_one = Some (campus_locations ! 1)"
  "showResults round_one = False" "gameOver round_one = False" "loading round_one = False"
  "roundResults round_one = []" "score round_one = 0" "alerts round_one = []"
  "round_no round_one = 1" "timerRef round_one \<noteq> None"
  by (simp_all add: round_one_eq loaded_def Home_init_def)

lemma campus_1: "coordinates (campus_locations ! 1) = (28.594, - 81.21)"
  by (simp add: campus_locations_def)



section \<open>Resolving a guess\<close>

subsection \<open>A submission without a selected position\<close>

text \<open>
  Outside the phase \<^verbatim>\<open>"guessing"\<close>, \<^verbatim>\<open>makeGuess\<close> with no selected position scores the
  fallback coordinate (this is what the timeout relies on).
\<close>

lemma makeGuess_unselected_exploring:
  assumes "selectedPosition s = None" "gamePhase s \<noteq> ''guessing''" "currentLocation s = Some loc"
  shows "roundResults (makeGuess s) =
      roundResults s @
        [\<lparr>r_round = round_no s, r_location = pano_name loc,
          r_actualPosition = coordinates loc, r_guessPosition = (28.6024, - 81.2001),
          r_score = fst (calculateScore (coordinates loc) (28.6024, - 81.2001)),
          r_distance = sqrt (\<bar>fst (coordinates loc) - 28.6024\<bar> * \<bar>fst (coordinates loc) - 28.6024\<bar>
             + \<bar>snd (coordinates loc) - (- 81.2001)\<bar> * \<bar>snd (coordinates loc) - (- 81.2001)\<bar>) * 111000\<rparr>]"
    and "score (makeGuess s) = score s + fst (calculateScore (coordinates loc) (28.6024, - 81.2001))"
    and "timerRef (makeGuess s) = None" and "showResults (makeGuess s)"
    and "alerts (makeGuess s) = alerts s"
  using assms
  by (simp_all add: makeGuess_def makeGuessIn_def capture_def Let_def split_beta)

text \<open>
  Claim C7, as stated: a player-triggered submission with no selected position is
  rejected with a prompt and changes no state. At the start of round 1 no position is
  selected, and neither the Space key nor the Confirm Guess button shows a prompt; and
  \<^verbatim>\<open>makeGuess\<close> itself, called there, shows no prompt either but appends a round result,
  stops the countdown and shows the results.
\<close>

theorem unselected_guess_is_not_rejected:
  "selectedPosition round_one = None \<and>
   alerts (fire (KeyDown ''Space'') round_one) = [] \<and>
   alerts (fire ConfirmClick round_one) = [] \<and>
   alerts (makeGuess round_one) = [] \<and>
   roundResults round_one = [] \<and>
   length (roundResults (makeGuess round_one)) = 1 \<and>
   timerRef round_one \<noteq> None \<and>
   timerRef (makeGuess round_one) = None \<and>
   showResults (makeGuess round_one) \<noteq> showResults round_one"
proof -
  note f = round_one_fields
  have g: "gamePhase round_one \<noteq> ''guessing''" by (simp add: f)
  note m = makeGuess_unselected_exploring [OF f(1) g f(3)]
  show ?thesis
    by (simp add: m f handleKeyDown_def confirmGuessClick_def)
qed

text \<open>
  Claim C7, amended. While no guess position is selected, a player-triggered submission
  (the Space key or any other key, the Confirm Guess button) is ignored: the state,
  and with it the cumulative score, the round results, the round number, the countdown
  and the phase, is unchanged, and no prompt is shown. \<^verbatim>\<open>makeGuess\<close> itself shows the
  prompt and changes nothing else when it is called in the phase \<^verbatim>\<open>"guessing"\<close>.
\<close>

theorem unselected_submission_is_ignored:
  assumes "selectedPosition s = None"
  shows "fire (KeyDown code) s = s \<and> fire ConfirmClick s = s \<and>
         (gamePhase s = ''guessing'' \<longrightarrow>
            makeGuess s = s\<lparr>alerts := alerts s @ [''Please select a location on the map first!'']\<rparr>)"
  using assms
  by (simp add: handleKeyDown_def confirmGuessClick_def makeGuess_def makeGuessIn_def capture_def)

theorem unselected_submission_is_ignored_witness:
  "fire (KeyDown ''Space'') round_one = round_one \<and> fire ConfirmClick round_one = round_one \<and>
   makeGuess (round_one\<lparr>gamePhase := ''guessing''\<rparr>)
     = round_one\<lparr>gamePhase := ''guessing'',
         alerts := [''Please select a location on the map first!'']\<rparr>"
  using unselected_submission_is_ignored [of round_one "''Space''"]
    unselected_submission_is_ignored [of "round_one\<lparr>gamePhase := ''guessing''\<rparr>" "''Space''"]
  by (simp add: round_one_fields)

subsection \<open>A round is resolved once\<close>





text \<open>What \<^verbatim>\<open>makeGuess\<close> records for a selected position.\<close>

lemma makeGuess_selected:
  assumes "selectedPosition s = Some g" "currentLocation s = Some loc"
  shows "roundResults (makeGuess s) =
      roundResults s @
        [\<lparr>r_round = round_no s, r_location = pano_name loc,
          r_actualPosition = coordinates loc, r_guessPosition = g,
          r_score = fst (calculateScore (coordinates loc) g),
          r_distance = sqrt (\<bar>fst (coordinates loc) - fst g\<bar> * \<bar>fst (coordinates loc) - fst g\<bar>
             + \<bar>snd (coordinates loc) - snd g\<bar> * \<bar>snd (coordinates loc) - snd g\<bar>) * 111000\<rparr>]"
  using assms
  by (simp add: makeGuess_def makeGuessIn_def capture_def Let_def split_beta)


subsection \<open>The distance that is recorded\<close>

text \<open>
  Away from the equator a step of \<open>d\<close> degrees to the north and a step of \<open>d\<close> degrees
  to the east have different haversine distances.
\<close>

lemma haversine_lat_lon_differ:
  assumes R: "R \<noteq> 0" and d: "0 < d" "d < 360" and p: "0 < p" "p < 180"
  shows "haversine_spec R (p, l) (p + d, l) \<noteq> haversine_spec R (p, l) (p, l + d)"
proof
  define x where "x = sin (d * pi / 180 / 2)"
  define c where "c = cos (p * pi / 180)"
  have "0 < d * pi / 180 / 2" "d * pi / 180 / 2 < pi" using d by simp_all
  then have x: "0 < x" unfolding x_def by (rule sin_gt_zero)
  have x1: "x \<le> 1" unfolding x_def by simp
  have "0 < p * pi / 180" "p * pi / 180 < pi" using p by simp_all
  then have s: "0 < sin (p * pi / 180)" by (rule sin_gt_zero)
  have "c\<^sup>2 = 1 - (sin (p * pi / 180))\<^sup>2" unfolding c_def by (rule cos_squared_eq)
  also have "\<dots> < 1" using s by simp
  finally have "c\<^sup>2 < 1\<^sup>2" by simp
  then have c: "\<bar>c\<bar> < 1" by (simp add: abs_square_less_1)
  have h1: "haversine_spec R (p, l) (p + d, l) = 2 * R * arcsin x"
    using x by (simp add: haversine_spec_def x_def)
  have "sqrt (c * c * x\<^sup>2) = \<bar>c\<bar> * x"
    using x by (simp add: real_sqrt_mult power2_eq_square [symmetric])
  then have h2: "haversine_spec R (p, l) (p, l + d) = 2 * R * arcsin (\<bar>c\<bar> * x)"
    by (simp add: haversine_spec_def x_def c_def)
  assume "haversine_spec R (p, l) (p + d, l) = haversine_spec R (p, l) (p, l + d)"
  then have "arcsin x = arcsin (\<bar>c\<bar> * x)" using R unfolding h1 h2 by simp
  moreover have "\<bar>c\<bar> * x < x" using c x by simp
  moreover have "0 \<le> \<bar>c\<bar> * x" using x by simp
  ultimately show False
    using arcsin_less_arcsin [of "\<bar>c\<bar> * x" x] x1 by simp
qed

lemma sqrt_hundredth: "sqrt (1 / 10000) = (1 / 100 :: real)"
proof -
  have "(1 / 10000 :: real) = (1 / 100)\<^sup>2" by (simp add: power2_eq_square)
  then have "sqrt (1 / 10000) = \<bar>1 / 100 :: real\<bar>" by (simp only: real_sqrt_abs)
  then show ?thesis by simp
qed

text \<open>
  Claim C9 says that the haversine distance returned by \<^verbatim>\<open>calculateScore\<close> is the one
  recorded in a round result. The code records the other one: in round 1 of the game with
  seed 42 the actual position is \<open>(28.594, -81.21)\<close>; for a guess 0.01 degrees to the
  north and for a guess 0.01 degrees to the east the recorded distance is the same
  \<open>0.01 * 111000 = 1110\<close>, the degree-scaled Euclidean figure, while the haversine
  distances that \<^verbatim>\<open>calculateScore\<close> returns for the two guesses differ.
\<close>

theorem stored_distance_is_not_haversine:
  "r_distance (last (roundResults (makeGuess (handleMapClick (28.604, - 81.21) round_one)))) = 1110 \<and>
   r_distance (last (roundResults (makeGuess (handleMapClick (28.594, - 81.2) round_one)))) = 1110 \<and>
   r_actualPosition (last (roundResults (makeGuess (handleMapClick (28.604, - 81.21) round_one))))
     = (28.594, - 81.21) \<and>
   r_actualPosition (last (roundResults (makeGuess (handleMapClick (28.594, - 81.2) round_one))))
     = (28.594, - 81.21) \<and>
   snd (calculateScore (28.594, - 81.21) (28.604, - 81.21))
     \<noteq> snd (calculateScore (28.594, - 81.21) (28.594, - 81.2))"
proof -
  have a: "selectedPosition (handleMapClick g round_one) = Some g"
    "currentLocation (handleMapClick g round_one) = Some (campus_locations ! 1)" for g
    by (simp_all add: handleMapClick_def round_one_fields)
  have 1: "r_distance (last (roundResults (makeGuess (handleMapClick (28.604, - 81.21) round_one)))) = 1110"
    unfolding makeGuess_selected [OF a] by (simp add: campus_locations_def sqrt_hundredth)
  have 2: "r_distance (last (roundResults (makeGuess (handleMapClick (28.594, - 81.2) round_one)))) = 1110"
    unfolding makeGuess_selected [OF a] by (simp add: campus_locations_def sqrt_hundredth)
  have 3: "r_actualPosition (last (roundResults (makeGuess (handleMapClick g round_one))))
     = (28.594, - 81.21)" for g
    unfolding makeGuess_selected [OF a] by (simp add: campus_locations_def)
  have "haversine_spec 3958.8 (28.594, - 81.21) (28.594 + 0.01, - 81.21)
      \<noteq> haversine_spec 3958.8 (28.594, - 81.21) (28.594, - 81.21 + 0.01)"
    by (rule haversine_lat_lon_differ) simp_all
  then have 4: "snd (calculateScore (28.594, - 81.21) (28.604, - 81.21))
     \<noteq> snd (calculateScore (28.594, - 81.21) (28.594, - 81.2))"
    by (simp add: calculateScore_def Let_def distanceMiles_haversine)
  show ?thesis using 1 2 3 4 by simp
qed

text \<open>
  \<^verbatim>\<open>makeGuess\<close> itself carries no guard against a second call: the guard of claim C8 is
  in its callers.
\<close>

lemma makeGuess_twice:
  "length (roundResults (makeGuess (makeGuess (handleMapClick (28.6, - 81.2) round_one)))) = 2"
proof -
  let ?s = "handleMapClick (28.6, - 81.2) round_one"
  have a: "selectedPosition ?s = Some (28.6, - 81.2)"
    "currentLocation ?s = Some (campus_locations ! 1)" "roundResults ?s = []"
    by (simp_all add: handleMapClick_def round_one_fields)
  have b: "selectedPosition (makeGuess ?s) = Some (28.6, - 81.2)"
    "currentLocation (makeGuess ?s) = Some (campus_locations ! 1)"
    using a by (simp_all add: makeGuess_def makeGuessIn_def capture_def Let_def split_beta)
  show ?thesis
    unfolding makeGuess_selected [OF b] makeGuess_selected [OF a(1,2)] using a(3) by simp
qed

end
